theory Spec2Isabelle
  imports Main "HOL-Library.Sublist"
begin

section \<open>TestRunner::GetInstance of the desktop integration tests\<close>

text \<open>
  The development embeds \<^verbatim>\<open>vnext/Desktop.IntegrationTests/DesktopTestRunner.cpp\<close>:
  the struct \<^verbatim>\<open>TestInstanceCallback\<close> and the function
  \<^verbatim>\<open>TestRunner::GetInstance\<close>. Objects are named by identities (natural numbers)
  handed out by a counter, the settings object lives in an explicit store because the
  function mutates it through a shared pointer, and every statement of the function
  appends one event to a trace, so that the order of the statements can be stated.
\<close>

subsection \<open>Data\<close>

text \<open>A \<^verbatim>\<open>shared_ptr<MessageQueueThread>\<close> is the identity of the queue it points to.\<close>

type_synonym queue = nat

text \<open>The address of a \<^verbatim>\<open>DevSettings\<close> object; a \<^verbatim>\<open>shared_ptr<DevSettings>\<close> is an
  \<open>addr option\<close>, \<open>None\<close> being the null pointer.\<close>

type_synonym addr = nat

datatype exn = Exception string

text \<open>
  \<^verbatim>\<open>CxxModule::Provider\<close>. The seven lambdas of lines 47 to 73 are constructors named
  after the module each of them creates; the lambda of \<^verbatim>\<open>"Timing"\<close> captures
  \<^verbatim>\<open>nativeQueue\<close>. A provider handed in by the caller is opaque.
\<close>

datatype 'p provider =
    AsyncStorageProvider string
  | WebSocketProvider
  | NetworkingProvider
  | TimingProvider queue
  | TestAppStateProvider
  | TestUIManagerProvider
  | TestDeviceInfoProvider
  | CallerProvider 'p

text \<open>\<^verbatim>\<open>tuple<string, CxxModule::Provider, shared_ptr<MessageQueueThread>>\<close>\<close>

type_synonym 'p descriptor = "string \<times> 'p provider \<times> queue"

definition get0 :: "'p descriptor \<Rightarrow> string" where
  "get0 d = fst d"

definition get1 :: "'p descriptor \<Rightarrow> 'p provider" where
  "get1 d = fst (snd d)"

definition get2 :: "'p descriptor \<Rightarrow> queue" where
  "get2 d = snd (snd d)"

text \<open>
  The object \<^verbatim>\<open>make_shared<ChakraRuntimeHolder>(devSettings, jsQueue, nullptr, nullptr)\<close>
  is represented by the four arguments of its constructor.
\<close>

datatype holder =
  ChakraRuntimeHolder (holder_settings: "addr option") (holder_queue: queue)
    (holder_arg3: "unit option") (holder_arg4: "unit option")

text \<open>
  Modelled from the spec: the declaration of \<^verbatim>\<open>DevSettings\<close> is not part of the file.
  The function writes the fields \<^verbatim>\<open>jsiRuntimeHolder\<close> and \<^verbatim>\<open>platformName\<close>; the rest of
  the aggregate (debug flags and so on) is the field \<open>otherFields\<close>.
\<close>

record 'o DevSettings =
  jsiRuntimeHolder :: "holder option"
  platformName :: string
  otherFields :: 'o

text \<open>A \<^verbatim>\<open>TestInstanceCallback\<close> object, named by its identity.\<close>

datatype callback = TestInstanceCallback nat

text \<open>The seven arguments of the call of \<^verbatim>\<open>CreateReactInstance\<close>, in their order.\<close>

record 'p instance_args =
  arg_root :: string
  arg_modules :: "'p descriptor list"
  arg_third :: "unit option"
  arg_callback :: callback
  arg_jsQueue :: queue
  arg_nativeQueue :: queue
  arg_devSettings :: "addr option"

text \<open>\<^verbatim>\<open>new DesktopTestInstance(std::move(instanceWrapper))\<close>: the object holds the
  pointer to the instance that \<^verbatim>\<open>CreateReactInstance\<close> returned, an \<open>'i option\<close> with
  \<open>None\<close> for the null pointer. A \<^verbatim>\<open>shared_ptr<ITestInstance>\<close> is an option in the same
  way.\<close>

datatype 'i test_instance = DesktopTestInstance "'i option"

type_synonym 'i handle = "'i test_instance option"

text \<open>What becomes of a bundle load later, on the script queue. \<^verbatim>\<open>loadBundle\<close> returns
  \<^verbatim>\<open>void\<close>, so its caller does not see it.\<close>

datatype load_fate = LoadSucceeds | LoadFails

text \<open>One event for each statement of the function, logged when the statement starts;
  \<open>EvLoadBundle\<close> is logged when \<^verbatim>\<open>loadBundle\<close> is entered, and \<open>EvReturn\<close> when the
  function returns.\<close>

datatype ('o, 'p, 'i) event =
    EvMakeJSQueueThread
  | EvChakraRuntimeHolder holder
  | EvSetRuntimeHolder "addr option" holder
  | EvInitModules "'p descriptor list"
  | EvEmplaceBack "'p descriptor"
  | EvSetPlatformName "addr option" string
  | EvNewCallback callback
  | EvCreateReactInstance "'p instance_args" "'o DevSettings option"
  | EvLoadBundle 'i string
  | EvReturn "'i handle"

record ('o, 'p, 'i) world =
  heap :: "addr \<Rightarrow> 'o DevSettings option"
  nextId :: nat
  trace :: "('o, 'p, 'i) event list"

text \<open>
  The code that the function calls and the constants it reads are not part of the file.
  They are parameters: the two module names of \<^verbatim>\<open>TestModule.h\<close>, and for each call
  whether it throws and what it returns. \<open>MakeJSQueueThread_throws\<close> is asked with the
  identity the new queue would get, \<open>ChakraRuntimeHolder_throws\<close> stands for the whole
  \<^verbatim>\<open>make_shared\<close> expression of line 44, \<open>CreateReactInstance_ext\<close> for the call of lines
  84 to 91 with the conversion of its arguments (the pointer it returns can be null), and
  \<open>DesktopTestInstance_throws\<close> for the whole expression of line 94.

  The statements of the function that allocate can throw as well
  (\<^verbatim>\<open>std::bad_alloc\<close>, or what the copy of a caller's provider throws). Whether they do is
  a parameter too: \<open>initializer_throws\<close> for the strings, functions and vector of lines
  46 to 73, \<open>emplace_back_throws\<close> for line 78 (asked with the vector so far and the
  tuple that is copied), \<open>assign_throws\<close> for the string assignment of line 82, and
  \<open>make_unique_throws\<close> for line 88 (asked with the identity of the new object).
\<close>

record ('o, 'p, 'i) collaborators =
  TestAppStateModule_name :: string
  TestDeviceInfoModule_name :: string
  MakeJSQueueThread_throws :: "nat \<Rightarrow> exn option"
  ChakraRuntimeHolder_throws :: "holder \<Rightarrow> 'o DevSettings option \<Rightarrow> exn option"
  initializer_throws :: "queue \<Rightarrow> exn option"
  emplace_back_throws :: "'p descriptor list \<Rightarrow> string \<times> 'p \<Rightarrow> exn option"
  assign_throws :: "string \<Rightarrow> exn option"
  make_unique_throws :: "nat \<Rightarrow> exn option"
  CreateReactInstance_ext ::
    "'p instance_args \<Rightarrow> 'o DevSettings option \<Rightarrow> exn + 'i option"
  loadBundle_ext :: "'i \<Rightarrow> string \<Rightarrow> exn + load_fate"
  DesktopTestInstance_throws :: "'i option \<Rightarrow> exn option"

subsection \<open>Control: exceptions, undefined behaviour, \<^verbatim>\<open>noexcept\<close>\<close>

text \<open>A statement ends normally, throws, or has undefined behaviour (a null pointer is
  dereferenced).\<close>

datatype 'a result = Ok 'a | Throw exn | UB

text \<open>What the caller of a function sees. An exception that leaves a \<^verbatim>\<open>noexcept\<close>
  function calls \<^verbatim>\<open>std::terminate\<close>; it does not unwind into the caller.\<close>

datatype 'a outcome = Returned 'a | Unwound exn | Terminated exn | Undefined

definition noexcept :: "'a result \<Rightarrow> 'a outcome" where
  "noexcept r = (case r of Ok a \<Rightarrow> Returned a | Throw e \<Rightarrow> Terminated e | UB \<Rightarrow> Undefined)"

definition bind_r ::
  "('s \<Rightarrow> 'a result \<times> 's) \<Rightarrow> ('a \<Rightarrow> 's \<Rightarrow> 'b result \<times> 's) \<Rightarrow> 's \<Rightarrow> 'b result \<times> 's" where
  "bind_r m f s =
     (case m s of
        (Ok a, s') \<Rightarrow> f a s'
      | (Throw e, s') \<Rightarrow> (Throw e, s')
      | (UB, s') \<Rightarrow> (UB, s'))"

definition log ::
  "('o, 'p, 'i) event \<Rightarrow> ('o, 'p, 'i) world \<Rightarrow> ('o, 'p, 'i) world" where
  "log e w = w\<lparr>trace := trace w @ [e]\<rparr>"

definition deref :: "('o, 'p, 'i) world \<Rightarrow> addr option \<Rightarrow> 'o DevSettings option" where
  "deref w p = (case p of None \<Rightarrow> None | Some a \<Rightarrow> heap w a)"

subsection \<open>TestInstanceCallback\<close>

text \<open>Lines 32 to 34: the three overrides have empty bodies.\<close>

definition onBatchComplete :: "callback \<Rightarrow> ('o, 'p, 'i) world \<Rightarrow> ('o, 'p, 'i) world" where
  "onBatchComplete cb w = w"

definition incrementPendingJSCalls :: "callback \<Rightarrow> ('o, 'p, 'i) world \<Rightarrow> ('o, 'p, 'i) world" where
  "incrementPendingJSCalls cb w = w"

definition decrementPendingJSCalls :: "callback \<Rightarrow> ('o, 'p, 'i) world \<Rightarrow> ('o, 'p, 'i) world" where
  "decrementPendingJSCalls cb w = w"

text \<open>\<^verbatim>\<open>std::make_unique<TestInstanceCallback>()\<close>: a new object, unless the allocation
  throws; the constructor has an empty body.\<close>

definition make_TestInstanceCallback ::
  "('o, 'p, 'i) collaborators \<Rightarrow> ('o, 'p, 'i) world
     \<Rightarrow> callback result \<times> ('o, 'p, 'i) world" where
  "make_TestInstanceCallback env w =
     (let cb = TestInstanceCallback (nextId w);
          w1 = log (EvNewCallback cb) w
      in case make_unique_throws env (nextId w) of
           Some e \<Rightarrow> (Throw e, w1)
         | None \<Rightarrow> (Ok cb, w1\<lparr>nextId := Suc (nextId w)\<rparr>))"

subsection \<open>The statements of GetInstance\<close>

text \<open>
  Modelled from the spec: \<^verbatim>\<open>react::uwp::MakeJSQueueThread\<close>
  (\<^verbatim>\<open>Threading/MessageQueueThreadFactory.h\<close>) is not part of the file. The spec has every
  call create a queue of its own ("two independent instances exist", "two are created
  per bridge invocation"), and names queue allocation failure as a construction error.
\<close>

definition MakeJSQueueThread ::
  "('o, 'p, 'i) collaborators \<Rightarrow> ('o, 'p, 'i) world \<Rightarrow> queue result \<times> ('o, 'p, 'i) world" where
  "MakeJSQueueThread env w =
     (let w1 = log EvMakeJSQueueThread w
      in case MakeJSQueueThread_throws env (nextId w1) of
           Some e \<Rightarrow> (Throw e, w1)
         | None \<Rightarrow> (Ok (nextId w1), w1\<lparr>nextId := Suc (nextId w1)\<rparr>))"

text \<open>Line 44, right-hand side: the holder is made from the settings pointer and
  \<^verbatim>\<open>jsQueue\<close>. The right-hand side of an assignment is evaluated before its left-hand
  side, so the holder is made before the pointer is dereferenced.\<close>

definition make_ChakraRuntimeHolder ::
  "('o, 'p, 'i) collaborators \<Rightarrow> addr option \<Rightarrow> queue \<Rightarrow> ('o, 'p, 'i) world
     \<Rightarrow> holder result \<times> ('o, 'p, 'i) world" where
  "make_ChakraRuntimeHolder env devSettings jsQueue w =
     (let h = ChakraRuntimeHolder devSettings jsQueue None None;
          w1 = log (EvChakraRuntimeHolder h) w
      in case ChakraRuntimeHolder_throws env h (deref w1 devSettings) of
           Some e \<Rightarrow> (Throw e, w1)
         | None \<Rightarrow> (Ok h, w1))"

text \<open>Line 44, the assignment \<^verbatim>\<open>devSettings->jsiRuntimeHolder = ...\<close>.\<close>

definition set_jsiRuntimeHolder ::
  "addr option \<Rightarrow> holder \<Rightarrow> ('o, 'p, 'i) world \<Rightarrow> unit result \<times> ('o, 'p, 'i) world" where
  "set_jsiRuntimeHolder devSettings h w =
     (let w1 = log (EvSetRuntimeHolder devSettings h) w
      in case devSettings of
           None \<Rightarrow> (UB, w1)
         | Some a \<Rightarrow>
             (case heap w1 a of
                None \<Rightarrow> (UB, w1)
              | Some s \<Rightarrow> (Ok (), w1\<lparr>heap := (heap w1)(a \<mapsto> s\<lparr>jsiRuntimeHolder := Some h\<rparr>)\<rparr>)))"

text \<open>Lines 46 to 73: the vector starts with seven tuples, all with \<^verbatim>\<open>nativeQueue\<close>.\<close>

definition initial_extraModules ::
  "('o, 'p, 'i) collaborators \<Rightarrow> queue \<Rightarrow> 'p descriptor list" where
  "initial_extraModules env nativeQueue =
     [(''AsyncLocalStorage'', AsyncStorageProvider ''ReactNativeAsyncStorage'', nativeQueue),
      (''WebSocketModule'', WebSocketProvider, nativeQueue),
      (''Networking'', NetworkingProvider, nativeQueue),
      (''Timing'', TimingProvider nativeQueue, nativeQueue),
      (TestAppStateModule_name env, TestAppStateProvider, nativeQueue),
      (''UIManager'', TestUIManagerProvider, nativeQueue),
      (TestDeviceInfoModule_name env, TestDeviceInfoProvider, nativeQueue)]"

text \<open>Lines 77 to 79: the loop over \<^verbatim>\<open>cxxModules\<close>; each round appends one tuple, a copy
  of the caller's name and provider with \<^verbatim>\<open>nativeQueue\<close>. The loop ends when a round
  throws.\<close>

fun emplace_all ::
  "('o, 'p, 'i) collaborators \<Rightarrow> (string \<times> 'p) list \<Rightarrow> queue \<Rightarrow> 'p descriptor list
     \<Rightarrow> ('o, 'p, 'i) world \<Rightarrow> 'p descriptor list result \<times> ('o, 'p, 'i) world" where
  "emplace_all env [] nativeQueue extraModules w = (Ok extraModules, w)"
| "emplace_all env (t # ts) nativeQueue extraModules w =
     (let d = (fst t, CallerProvider (snd t), nativeQueue);
          w1 = log (EvEmplaceBack d) w
      in case emplace_back_throws env extraModules t of
           Some e \<Rightarrow> (Throw e, w1)
         | None \<Rightarrow> emplace_all env ts nativeQueue (extraModules @ [d]) w1)"

text \<open>Lines 46 to 79: the initializer, which can throw, then the loop.\<close>

definition build_extraModules ::
  "('o, 'p, 'i) collaborators \<Rightarrow> (string \<times> 'p) list \<Rightarrow> queue \<Rightarrow> ('o, 'p, 'i) world
     \<Rightarrow> 'p descriptor list result \<times> ('o, 'p, 'i) world" where
  "build_extraModules env cxxModules nativeQueue w =
     (let extraModules = initial_extraModules env nativeQueue;
          w1 = log (EvInitModules extraModules) w
      in case initializer_throws env nativeQueue of
           Some e \<Rightarrow> (Throw e, w1)
         | None \<Rightarrow> emplace_all env cxxModules nativeQueue extraModules w1)"

text \<open>Line 82: the pointer is dereferenced, then the string is assigned, which can
  throw.\<close>

definition set_platformName ::
  "('o, 'p, 'i) collaborators \<Rightarrow> addr option \<Rightarrow> string \<Rightarrow> ('o, 'p, 'i) world
     \<Rightarrow> unit result \<times> ('o, 'p, 'i) world" where
  "set_platformName env devSettings v w =
     (let w1 = log (EvSetPlatformName devSettings v) w
      in case devSettings of
           None \<Rightarrow> (UB, w1)
         | Some a \<Rightarrow>
             (case heap w1 a of
                None \<Rightarrow> (UB, w1)
              | Some s \<Rightarrow>
                  (case assign_throws env v of
                     Some e \<Rightarrow> (Throw e, w1)
                   | None \<Rightarrow>
                       (Ok (), w1\<lparr>heap := (heap w1)(a \<mapsto> s\<lparr>platformName := v\<rparr>)\<rparr>))))"

text \<open>Lines 84 to 91. The callee gets the arguments and can read the settings object;
  it returns a pointer to an instance.\<close>

definition CreateReactInstance ::
  "('o, 'p, 'i) collaborators \<Rightarrow> 'p instance_args \<Rightarrow> ('o, 'p, 'i) world
     \<Rightarrow> 'i option result \<times> ('o, 'p, 'i) world" where
  "CreateReactInstance env args w =
     (let settings = deref w (arg_devSettings args);
          w1 = log (EvCreateReactInstance args settings) w
      in case CreateReactInstance_ext env args settings of
           Inl e \<Rightarrow> (Throw e, w1)
         | Inr instanceWrapper \<Rightarrow> (Ok instanceWrapper, w1))"

text \<open>Line 92: \<^verbatim>\<open>instanceWrapper->loadBundle(...)\<close>. The pointer is dereferenced, which
  is undefined for a null pointer. What \<^verbatim>\<open>loadBundle\<close> gives back is dropped.\<close>

definition loadBundle ::
  "('o, 'p, 'i) collaborators \<Rightarrow> 'i option \<Rightarrow> string \<Rightarrow> ('o, 'p, 'i) world
     \<Rightarrow> unit result \<times> ('o, 'p, 'i) world" where
  "loadBundle env instanceWrapper jsBundleFile w =
     (case instanceWrapper of
        None \<Rightarrow> (UB, w)
      | Some inst \<Rightarrow>
          (let w1 = log (EvLoadBundle inst jsBundleFile) w
           in case loadBundle_ext env inst jsBundleFile of
                Inl e \<Rightarrow> (Throw e, w1)
              | Inr fate \<Rightarrow> (Ok (), w1)))"

text \<open>Line 94.\<close>

definition return_DesktopTestInstance ::
  "('o, 'p, 'i) collaborators \<Rightarrow> 'i option \<Rightarrow> ('o, 'p, 'i) world
     \<Rightarrow> 'i handle result \<times> ('o, 'p, 'i) world" where
  "return_DesktopTestInstance env instanceWrapper w =
     (case DesktopTestInstance_throws env instanceWrapper of
        Some e \<Rightarrow> (Throw e, w)
      | None \<Rightarrow>
          (let h = Some (DesktopTestInstance instanceWrapper)
           in (Ok h, log (EvReturn h) w)))"

subsection \<open>GetInstance\<close>

definition GetInstance_body ::
  "('o, 'p, 'i) collaborators \<Rightarrow> string \<Rightarrow> (string \<times> 'p) list \<Rightarrow> addr option
     \<Rightarrow> ('o, 'p, 'i) world \<Rightarrow> 'i handle result \<times> ('o, 'p, 'i) world" where
  "GetInstance_body env jsBundleFile cxxModules devSettings =
     bind_r (MakeJSQueueThread env) (\<lambda>nativeQueue.
     bind_r (MakeJSQueueThread env) (\<lambda>jsQueue.
     bind_r (make_ChakraRuntimeHolder env devSettings jsQueue) (\<lambda>h.
     bind_r (set_jsiRuntimeHolder devSettings h) (\<lambda>_.
     bind_r (build_extraModules env cxxModules nativeQueue) (\<lambda>extraModules.
     bind_r (set_platformName env devSettings ''windesktop'') (\<lambda>_.
     bind_r (make_TestInstanceCallback env) (\<lambda>cb.
     bind_r (CreateReactInstance env
               \<lparr>arg_root = '''', arg_modules = extraModules, arg_third = None,
                arg_callback = cb, arg_jsQueue = jsQueue, arg_nativeQueue = nativeQueue,
                arg_devSettings = devSettings\<rparr>) (\<lambda>instanceWrapper.
     bind_r (loadBundle env instanceWrapper jsBundleFile) (\<lambda>_.
     return_DesktopTestInstance env instanceWrapper)))))))))"

text \<open>The function is declared \<^verbatim>\<open>noexcept\<close> (line 40).\<close>

definition GetInstance ::
  "('o, 'p, 'i) collaborators \<Rightarrow> string \<Rightarrow> (string \<times> 'p) list \<Rightarrow> addr option
     \<Rightarrow> ('o, 'p, 'i) world \<Rightarrow> 'i handle outcome \<times> ('o, 'p, 'i) world" where
  "GetInstance env jsBundleFile cxxModules devSettings w =
     (case GetInstance_body env jsBundleFile cxxModules devSettings w of
        (r, w') \<Rightarrow> (noexcept r, w'))"

text \<open>The events that a call adds to the trace.\<close>

definition new_events ::
  "('o, 'p, 'i) world \<Rightarrow> ('o, 'p, 'i) world \<Rightarrow> ('o, 'p, 'i) event list" where
  "new_events w w' = drop (length (trace w)) (trace w')"

subsection \<open>Notions used in the statements\<close>

text \<open>What the loop of lines 77 to 79 appends for the list \<^verbatim>\<open>cxxModules\<close>.\<close>

definition extras_of :: "(string \<times> 'p) list \<Rightarrow> queue \<Rightarrow> 'p descriptor list" where
  "extras_of cxxModules q = map (\<lambda>t. (fst t, CallerProvider (snd t), q)) cxxModules"

text \<open>The settings object with the two fields written by lines 44 and 82.\<close>

definition settings_after :: "addr \<Rightarrow> queue \<Rightarrow> 'o DevSettings \<Rightarrow> 'o DevSettings" where
  "settings_after a jsQueue s =
     s\<lparr>jsiRuntimeHolder := Some (ChakraRuntimeHolder (Some a) jsQueue None None),
       platformName := ''windesktop''\<rparr>"

text \<open>The arguments of \<^verbatim>\<open>CreateReactInstance\<close> when the first new identity is \<open>n\<close>.\<close>

definition args_of ::
  "('o, 'p, 'i) collaborators \<Rightarrow> (string \<times> 'p) list \<Rightarrow> addr option \<Rightarrow> nat
     \<Rightarrow> 'p instance_args" where
  "args_of env cxxModules devSettings n =
     \<lparr>arg_root = '''', arg_modules = initial_extraModules env n @ extras_of cxxModules n,
      arg_third = None, arg_callback = TestInstanceCallback (n + 2), arg_jsQueue = Suc n,
      arg_nativeQueue = n, arg_devSettings = devSettings\<rparr>"

text \<open>The events of a call that returns.\<close>

definition events_of ::
  "('o, 'p, 'i) collaborators \<Rightarrow> string \<Rightarrow> (string \<times> 'p) list \<Rightarrow> addr \<Rightarrow> 'o DevSettings
     \<Rightarrow> nat \<Rightarrow> 'i \<Rightarrow> ('o, 'p, 'i) event list" where
  "events_of env jsBundleFile cxxModules a s n inst =
     [EvMakeJSQueueThread, EvMakeJSQueueThread,
      EvChakraRuntimeHolder (ChakraRuntimeHolder (Some a) (Suc n) None None),
      EvSetRuntimeHolder (Some a) (ChakraRuntimeHolder (Some a) (Suc n) None None),
      EvInitModules (initial_extraModules env n)]
     @ map EvEmplaceBack (extras_of cxxModules n)
     @ [EvSetPlatformName (Some a) ''windesktop'',
        EvNewCallback (TestInstanceCallback (n + 2)),
        EvCreateReactInstance (args_of env cxxModules (Some a) n)
          (Some (settings_after a (Suc n) s)),
        EvLoadBundle inst jsBundleFile,
        EvReturn (Some (DesktopTestInstance (Some inst)))]"

text \<open>The round of the loop that throws, counted from 0, and what it throws; \<open>None\<close> when
  every round completes.\<close>

fun emplace_stop ::
  "('o, 'p, 'i) collaborators \<Rightarrow> queue \<Rightarrow> 'p descriptor list \<Rightarrow> (string \<times> 'p) list
     \<Rightarrow> (nat \<times> exn) option" where
  "emplace_stop env q xs [] = None"
| "emplace_stop env q xs (t # ts) =
     (case emplace_back_throws env xs t of
        Some e \<Rightarrow> Some (0, e)
      | None \<Rightarrow>
          map_option (\<lambda>(k, e). (Suc k, e))
            (emplace_stop env q (xs @ [(fst t, CallerProvider (snd t), q)]) ts))"

text \<open>The first exception in a list of what statements throw.\<close>

fun first_thrown :: "exn option list \<Rightarrow> exn option" where
  "first_thrown [] = None"
| "first_thrown (Some e # xs) = Some e"
| "first_thrown (None # xs) = first_thrown xs"

text \<open>
  For every statement of the function that can throw, in the order of the text, what it
  throws at the arguments it gets in a call with the settings \<open>s\<close> at address \<open>a\<close> and
  the first new identity \<open>n\<close> (\<open>None\<close> when it completes): the two calls of
  \<^verbatim>\<open>MakeJSQueueThread\<close>, the construction of the holder, the initializer of the table,
  round \<open>k\<close> of the loop for every index \<open>k\<close> of \<^verbatim>\<open>cxxModules\<close>, the assignment of the
  platform name, \<^verbatim>\<open>make_unique\<close>, \<^verbatim>\<open>CreateReactInstance\<close> and, when that returns an
  instance, \<^verbatim>\<open>loadBundle\<close> and the construction of the \<^verbatim>\<open>DesktopTestInstance\<close>.
\<close>

definition thrown_in_order ::
  "('o, 'p, 'i) collaborators \<Rightarrow> string \<Rightarrow> (string \<times> 'p) list \<Rightarrow> addr \<Rightarrow> 'o DevSettings
     \<Rightarrow> nat \<Rightarrow> exn option list" where
  "thrown_in_order env jsBundleFile cxxModules a s n =
     [MakeJSQueueThread_throws env n,
      MakeJSQueueThread_throws env (Suc n),
      ChakraRuntimeHolder_throws env (ChakraRuntimeHolder (Some a) (Suc n) None None) (Some s),
      initializer_throws env n]
     @ map (\<lambda>k. emplace_back_throws env
                  (initial_extraModules env n @ extras_of (take k cxxModules) n)
                  (cxxModules ! k))
         [0 ..< length cxxModules]
     @ [assign_throws env ''windesktop'',
        make_unique_throws env (n + 2)]
     @ (case CreateReactInstance_ext env (args_of env cxxModules (Some a) n)
               (Some (settings_after a (Suc n) s)) of
          Inl e \<Rightarrow> [Some e]
        | Inr None \<Rightarrow> []
        | Inr (Some inst) \<Rightarrow>
            [case loadBundle_ext env inst jsBundleFile of
               Inl e \<Rightarrow> Some e
             | Inr fate \<Rightarrow> None,
             DesktopTestInstance_throws env (Some inst)])"

text \<open>The kind of statement an event stands for.\<close>

datatype step =
    AllocQueue | ConstructHolder | InjectHolder | InitTable | AppendExtra | InjectPlatform
  | NewCallback | ConstructInstance | LoadBundle | ReturnHandle

fun step_of :: "('o, 'p, 'i) event \<Rightarrow> step" where
  "step_of EvMakeJSQueueThread = AllocQueue"
| "step_of (EvChakraRuntimeHolder h) = ConstructHolder"
| "step_of (EvSetRuntimeHolder d h) = InjectHolder"
| "step_of (EvInitModules ds) = InitTable"
| "step_of (EvEmplaceBack d) = AppendExtra"
| "step_of (EvSetPlatformName d v) = InjectPlatform"
| "step_of (EvNewCallback cb) = NewCallback"
| "step_of (EvCreateReactInstance args st) = ConstructInstance"
| "step_of (EvLoadBundle inst b) = LoadBundle"
| "step_of (EvReturn h) = ReturnHandle"

text \<open>The statements of the function in the order of its text, for \<open>n\<close> extra modules.\<close>

definition steps_in_order :: "nat \<Rightarrow> step list" where
  "steps_in_order n =
     [AllocQueue, AllocQueue, ConstructHolder, InjectHolder, InitTable]
     @ replicate n AppendExtra
     @ [InjectPlatform, NewCallback, ConstructInstance, LoadBundle, ReturnHandle]"

text \<open>\<open>precedes a b xs\<close>: a step \<open>a\<close> happens in \<open>xs\<close> before the first step \<open>b\<close>.\<close>

definition precedes :: "step \<Rightarrow> step \<Rightarrow> step list \<Rightarrow> bool" where
  "precedes a b xs = (a \<in> set (takeWhile (\<lambda>x. x \<noteq> b) xs))"

text \<open>
  Modelled from the spec: the consumer that looks modules up by name (the runtime
  instance) is not part of the file. The spec has it observe the last write for a name:
  the table is entered into a map entry by entry, a later entry overriding an earlier one
  of the same name.
\<close>

definition index_by_name :: "'p descriptor list \<Rightarrow> string \<Rightarrow> 'p descriptor option" where
  "index_by_name table = fold (\<lambda>d m. m(get0 d \<mapsto> d)) table Map.empty"

text \<open>A concrete run: one settings object at address 0, and nothing throws.\<close>

definition example_settings :: "nat DevSettings" where
  "example_settings = \<lparr>jsiRuntimeHolder = None, platformName = ''unset'', otherFields = 42\<rparr>"

definition example_world :: "(nat, nat, nat) world" where
  "example_world = \<lparr>heap = Map.empty(0 \<mapsto> example_settings), nextId = 0, trace = []\<rparr>"

definition example_env :: "(nat, nat, nat) collaborators" where
  "example_env =
     \<lparr>TestAppStateModule_name = ''AppState'',
      TestDeviceInfoModule_name = ''DeviceInfo'',
      MakeJSQueueThread_throws = (\<lambda>n. None),
      ChakraRuntimeHolder_throws = (\<lambda>h st. None),
      initializer_throws = (\<lambda>q. None),
      emplace_back_throws = (\<lambda>xs t. None),
      assign_throws = (\<lambda>v. None),
      make_unique_throws = (\<lambda>n. None),
      CreateReactInstance_ext = (\<lambda>args st. Inr (Some 7)),
      loadBundle_ext = (\<lambda>inst b. Inr LoadSucceeds),
      DesktopTestInstance_throws = (\<lambda>instanceWrapper. None)\<rparr>"

text \<open>The same collaborators, but the constructor of the runtime holder throws.\<close>

definition holder_failing_env :: "(nat, nat, nat) collaborators" where
  "holder_failing_env =
     example_env\<lparr>ChakraRuntimeHolder_throws := (\<lambda>h st. Some (Exception ''holder''))\<rparr>"

section \<open>Properties\<close>

subsection \<open>Auxiliary facts\<close>

lemma emplace_all_eq:
  "emplace_all env ts q xs w =
     (case emplace_stop env q xs ts of
        None \<Rightarrow>
          (Ok (xs @ extras_of ts q),
           w\<lparr>trace := trace w @ map EvEmplaceBack (extras_of ts q)\<rparr>)
      | Some (k, e) \<Rightarrow>
          (Throw e,
           w\<lparr>trace := trace w @ map EvEmplaceBack (extras_of (take (Suc k) ts) q)\<rparr>))"
  by (induction ts arbitrary: xs w)
     (auto simp: extras_of_def log_def Let_def split: option.splits)

lemma build_extraModules_eq:
  "build_extraModules env ts q w =
     (case initializer_throws env q of
        Some e \<Rightarrow>
          (Throw e, w\<lparr>trace := trace w @ [EvInitModules (initial_extraModules env q)]\<rparr>)
      | None \<Rightarrow>
          (case emplace_stop env q (initial_extraModules env q) ts of
             None \<Rightarrow>
               (Ok (initial_extraModules env q @ extras_of ts q),
                w\<lparr>trace := trace w @ EvInitModules (initial_extraModules env q)
                           # map EvEmplaceBack (extras_of ts q)\<rparr>)
           | Some (k, e) \<Rightarrow>
               (Throw e,
                w\<lparr>trace := trace w @ EvInitModules (initial_extraModules env q)
                           # map EvEmplaceBack (extras_of (take (Suc k) ts) q)\<rparr>)))"
  by (simp add: build_extraModules_def emplace_all_eq log_def Let_def
      split: option.splits)

lemma emplace_stop_never:
  assumes "\<And>xs t. emplace_back_throws env xs t = None"
  shows "emplace_stop env q xs ts = None"
  by (induction ts arbitrary: xs) (simp_all add: assms)

lemmas GetInstance_unfold =
  GetInstance_def GetInstance_body_def bind_r_def noexcept_def MakeJSQueueThread_def
  make_ChakraRuntimeHolder_def set_jsiRuntimeHolder_def build_extraModules_eq set_platformName_def
  make_TestInstanceCallback_def CreateReactInstance_def loadBundle_def
  return_DesktopTestInstance_def log_def deref_def Let_def new_events_def

lemmas example_defs =
  example_env_def holder_failing_env_def example_world_def example_settings_def
  initial_extraModules_def extras_of_def emplace_stop_never

lemma prefix_replicate_le:
  "m \<le> n \<Longrightarrow> prefix (replicate m x) (replicate n x @ ys)"
proof -
  assume "m \<le> n"
  then have "replicate n x = replicate m x @ replicate (n - m) x"
    by (simp add: replicate_add [symmetric])
  then show ?thesis
    by simp
qed

lemma first_thrown_Cons:
  "first_thrown (x # xs) = (case x of Some e \<Rightarrow> Some e | None \<Rightarrow> first_thrown xs)"
  by (cases x) simp_all

lemma first_thrown_append:
  "first_thrown (xs @ ys) =
     (case first_thrown xs of Some e \<Rightarrow> Some e | None \<Rightarrow> first_thrown ys)"
  by (induction xs rule: first_thrown.induct) simp_all

lemma first_thrown_emplace:
  "first_thrown (map (\<lambda>k. emplace_back_throws env (xs @ extras_of (take k ts) q) (ts ! k))
                   [0 ..< length ts])
     = map_option snd (emplace_stop env q xs ts)"
proof (induction ts arbitrary: xs)
  case Nil
  then show ?case by simp
next
  case (Cons t ts)
  have "first_thrown (map (\<lambda>k. emplace_back_throws env
                                 (xs @ extras_of (take (Suc k) (t # ts)) q) ((t # ts) ! Suc k))
                          [0 ..< length ts])
          = map_option snd
              (emplace_stop env q (xs @ [(fst t, CallerProvider (snd t), q)]) ts)"
    using Cons.IH [of "xs @ [(fst t, CallerProvider (snd t), q)]"]
    by (simp add: extras_of_def)
  then show ?case
    by (cases "emplace_back_throws env xs t")
       (simp_all add: map_upt_Suc extras_of_def option.map_comp o_def split_def
          del: upt_Suc)
qed

lemma length_extras_of: "length (extras_of ms q) = length ms"
  by (simp add: extras_of_def)

lemma length_initial_extraModules: "length (initial_extraModules env q) = 7"
  by (simp add: initial_extraModules_def)

lemma map_step_emplace:
  "map (step_of \<circ> EvEmplaceBack) ds = replicate (length ds) AppendExtra"
  by (induction ds) simp_all

lemma GetInstance_Returned:
  assumes "GetInstance env jsBundleFile cxxModules devSettings w = (Returned h, w')"
  shows "\<exists>a s inst. devSettings = Some a \<and> heap w a = Some s
           \<and> CreateReactInstance_ext env (args_of env cxxModules devSettings (nextId w))
                (Some (settings_after a (Suc (nextId w)) s)) = Inr (Some inst)
           \<and> h = Some (DesktopTestInstance (Some inst))
           \<and> w' = \<lparr>heap = (heap w)(a \<mapsto> settings_after a (Suc (nextId w)) s),
                   nextId = nextId w + 3,
                   trace = trace w @ events_of env jsBundleFile cxxModules a s (nextId w) inst\<rparr>"
  using assms unfolding GetInstance_unfold
  by (auto simp: args_of_def events_of_def settings_after_def
      split: option.splits sum.splits prod.splits)

lemma CreateReactInstance_event:
  assumes "EvCreateReactInstance args st
             \<in> set (new_events w (snd (GetInstance env b ms d w)))"
  shows "\<exists>a s. d = Some a \<and> heap w a = Some s
           \<and> args = args_of env ms d (nextId w)
           \<and> st = Some (settings_after a (Suc (nextId w)) s)
           \<and> heap (snd (GetInstance env b ms d w)) a = st"
  using assms unfolding GetInstance_unfold
  by (auto simp: args_of_def settings_after_def split: option.splits sum.splits prod.splits)

subsection \<open>The module table\<close>

text \<open>
  C1. For a non-empty list \<^verbatim>\<open>cxxModules\<close> of \<open>n\<close> extra modules, the table that
  GetInstance hands to \<^verbatim>\<open>CreateReactInstance\<close> has \<open>7 + n\<close> entries: first the seven
  built-in descriptors, in the order AsyncLocalStorage, WebSocketModule, Networking,
  Timing, the app-state module, UIManager, the device-info module, each as it was put
  into the vector with the native queue; then the \<open>n\<close> extra descriptors in the order of
  the input, each with the native queue, which is the queue of the first call of
  \<^verbatim>\<open>MakeJSQueueThread\<close>.
\<close>

theorem C1_table_builtins_then_extras:
  assumes "cxxModules \<noteq> []"
    and "EvCreateReactInstance args st
           \<in> set (new_events w (snd (GetInstance env jsBundleFile cxxModules devSettings w)))"
  shows "length (arg_modules args) = 7 + length cxxModules
       \<and> take 7 (arg_modules args) = initial_extraModules env (arg_nativeQueue args)
       \<and> map get0 (take 7 (arg_modules args)) =
           [''AsyncLocalStorage'', ''WebSocketModule'', ''Networking'', ''Timing'',
            TestAppStateModule_name env, ''UIManager'', TestDeviceInfoModule_name env]
       \<and> (\<forall>d \<in> set (take 7 (arg_modules args)). get2 d = arg_nativeQueue args)
       \<and> drop 7 (arg_modules args) =
           map (\<lambda>t. (fst t, CallerProvider (snd t), arg_nativeQueue args)) cxxModules
       \<and> fst (MakeJSQueueThread env w) = Ok (arg_nativeQueue args)"
proof -
  from CreateReactInstance_event [OF assms(2)]
  have args: "args = args_of env cxxModules devSettings (nextId w)"
    by blast
  have tbl: "arg_modules args
               = initial_extraModules env (nextId w) @ extras_of cxxModules (nextId w)"
    and nq: "arg_nativeQueue args = nextId w"
    by (simp_all add: args args_of_def)
  have first: "fst (MakeJSQueueThread env w) = Ok (nextId w)"
    using assms(2) unfolding GetInstance_unfold
    by (auto split: option.splits)
  have names: "map get0 (initial_extraModules env (nextId w)) =
           [''AsyncLocalStorage'', ''WebSocketModule'', ''Networking'', ''Timing'',
            TestAppStateModule_name env, ''UIManager'', TestDeviceInfoModule_name env]"
    by (simp add: initial_extraModules_def get0_def)
  have queues: "\<forall>d \<in> set (initial_extraModules env (nextId w)). get2 d = nextId w"
    by (simp add: initial_extraModules_def get2_def)
  show ?thesis
    using names queues first
    by (simp add: tbl nq length_initial_extraModules length_extras_of extras_of_def)
qed

theorem C1_table_builtins_then_extras_witness:
  "[(''Custom'', 1::nat)] \<noteq> []
   \<and> EvCreateReactInstance (args_of example_env [(''Custom'', 1)] (Some 0) 0)
         (Some (settings_after 0 1 example_settings))
       \<in> set (new_events example_world
            (snd (GetInstance example_env ''main.bundle'' [(''Custom'', 1)] (Some 0)
                   example_world)))
   \<and> length (arg_modules (args_of example_env [(''Custom'', 1)] (Some 0) 0)) = 8
   \<and> drop 7 (arg_modules (args_of example_env [(''Custom'', 1)] (Some 0) 0))
       = [(''Custom'', CallerProvider 1, 0)]"
proof -
  have ev: "EvCreateReactInstance (args_of example_env [(''Custom'', 1)] (Some 0) 0)
         (Some (settings_after 0 1 example_settings))
       \<in> set (new_events example_world
            (snd (GetInstance example_env ''main.bundle'' [(''Custom'', 1)] (Some 0)
                   example_world)))"
    unfolding GetInstance_unfold
    by (simp add: example_defs args_of_def settings_after_def)
  have ne: "[(''Custom'', 1::nat)] \<noteq> []"
    by simp
  from C1_table_builtins_then_extras [OF ne ev] ev show ?thesis
    by (simp add: example_defs args_of_def)
qed

text \<open>
  C3. For an empty list \<^verbatim>\<open>cxxModules\<close> the table handed to \<^verbatim>\<open>CreateReactInstance\<close> is
  the list of the seven built-in descriptors as they were written, in their order, and
  nothing else.
\<close>

theorem C3_table_empty_extras:
  assumes "EvCreateReactInstance args st
             \<in> set (new_events w (snd (GetInstance env jsBundleFile [] devSettings w)))"
  shows "arg_modules args = initial_extraModules env (arg_nativeQueue args)
       \<and> length (arg_modules args) = 7
       \<and> map get0 (arg_modules args) =
           [''AsyncLocalStorage'', ''WebSocketModule'', ''Networking'', ''Timing'',
            TestAppStateModule_name env, ''UIManager'', TestDeviceInfoModule_name env]"
proof -
  from CreateReactInstance_event [OF assms]
  have args: "args = args_of env [] devSettings (nextId w)"
    by blast
  show ?thesis
    by (simp add: args args_of_def extras_of_def initial_extraModules_def get0_def)
qed

theorem C3_table_empty_extras_witness:
  "EvCreateReactInstance (args_of example_env [] (Some 0) 0)
         (Some (settings_after 0 1 example_settings))
       \<in> set (new_events example_world
            (snd (GetInstance example_env ''main.bundle'' [] (Some 0) example_world)))
   \<and> map get0 (arg_modules (args_of example_env [] (Some 0) 0)) =
       [''AsyncLocalStorage'', ''WebSocketModule'', ''Networking'', ''Timing'',
        ''AppState'', ''UIManager'', ''DeviceInfo'']
   \<and> fst (GetInstance example_env ''main.bundle'' [] (Some 0) example_world)
       = Returned (Some (DesktopTestInstance (Some 7)))"
proof -
  have ev: "EvCreateReactInstance (args_of example_env [] (Some 0) 0)
         (Some (settings_after 0 1 example_settings))
       \<in> set (new_events example_world
            (snd (GetInstance example_env ''main.bundle'' [] (Some 0) example_world)))"
    unfolding GetInstance_unfold
    by (simp add: example_defs args_of_def settings_after_def)
  have ret: "fst (GetInstance example_env ''main.bundle'' [] (Some 0) example_world)
       = Returned (Some (DesktopTestInstance (Some 7)))"
    unfolding GetInstance_unfold
    by (simp add: example_defs)
  from C3_table_empty_extras [OF ev] ev ret show ?thesis
    by (simp add: example_defs args_of_def get0_def)
qed

subsection \<open>Every way the call can end\<close>

lemma GetInstance_steps_prefix:
  "prefix (map step_of (new_events w (snd (GetInstance env b ms d w))))
          (steps_in_order (length ms))"
  unfolding GetInstance_unfold steps_in_order_def
  by (simp add: map_step_emplace length_extras_of prefix_replicate_le
      split: option.splits sum.splits prod.splits)

lemma GetInstance_Returned_steps:
  assumes "fst (GetInstance env b ms d w) = Returned h"
  shows "map step_of (new_events w (snd (GetInstance env b ms d w)))
           = steps_in_order (length ms)"
proof -
  from assms have "GetInstance env b ms d w = (Returned h, snd (GetInstance env b ms d w))"
    by (simp add: prod_eq_iff)
  from GetInstance_Returned [OF this]
  obtain a s inst where
    "trace (snd (GetInstance env b ms d w)) = trace w @ events_of env b ms a s (nextId w) inst"
    by (metis world.select_convs(3))
  then show ?thesis
    by (simp add: new_events_def events_of_def steps_in_order_def map_step_emplace
        length_extras_of)
qed

lemma GetInstance_not_Unwound:
  "fst (GetInstance env b ms d w) \<noteq> Unwound e"
  unfolding GetInstance_unfold
  by (simp split: option.splits sum.splits prod.splits)

lemma GetInstance_frame:
  assumes "d = Some a" "heap w a = Some s"
  shows "(\<forall>b'. b' \<noteq> a \<longrightarrow> heap (snd (GetInstance env b ms d w)) b' = heap w b')
       \<and> (\<exists>s'. heap (snd (GetInstance env b ms d w)) a = Some s'
             \<and> otherFields s' = otherFields s
             \<and> (jsiRuntimeHolder s' = jsiRuntimeHolder s
                 \<or> jsiRuntimeHolder s' = Some (ChakraRuntimeHolder d (Suc (nextId w)) None None))
             \<and> (platformName s' = platformName s \<or> platformName s' = ''windesktop''))"
  using assms unfolding GetInstance_unfold
  by (simp split: option.splits sum.splits prod.splits)

lemma example_returns:
  "fst (GetInstance example_env ''main.bundle'' ms (Some 0) example_world)
     = Returned (Some (DesktopTestInstance (Some 7)))"
  unfolding GetInstance_unfold
  by (simp add: example_defs)

lemma precedes_append:
  "precedes a b (xs @ ys) =
     (if b \<in> set xs then precedes a b xs else a \<in> set xs \<or> precedes a b ys)"
  unfolding precedes_def by (induct xs) auto

lemma precedes_Cons:
  "precedes a b (x # xs) = (x \<noteq> b \<and> (a = x \<or> precedes a b xs))"
  unfolding precedes_def by (cases "x = b") simp_all

lemma precedes_Nil: "\<not> precedes a b []"
  by (simp add: precedes_def)

lemma steps_precedes:
  "precedes AllocQueue ConstructHolder (steps_in_order n)"
  "precedes AllocQueue InitTable (steps_in_order n)"
  "precedes ConstructHolder InjectHolder (steps_in_order n)"
  "precedes InjectHolder InitTable (steps_in_order n)"
  "precedes InitTable InjectPlatform (steps_in_order n)"
  "precedes InjectPlatform ConstructInstance (steps_in_order n)"
  "precedes ConstructInstance LoadBundle (steps_in_order n)"
  "precedes LoadBundle ReturnHandle (steps_in_order n)"
  by (simp_all add: steps_in_order_def precedes_append precedes_Cons precedes_Nil)

subsection \<open>The boundary of the function\<close>

text \<open>
  C2, as stated: for every non-null settings argument GetInstance returns a non-null
  handle. It does not when a call it makes throws: with a constructor of the runtime
  holder that throws, the exception meets \<^verbatim>\<open>noexcept\<close> and the process is terminated.
\<close>

theorem C2_always_returns_counterexample:
  "heap example_world 0 = Some example_settings
   \<and> fst (GetInstance holder_failing_env ''main.bundle'' [] (Some 0) example_world)
       = Terminated (Exception ''holder'')"
  unfolding GetInstance_unfold
  by (simp add: example_defs)

text \<open>
  C2, amended. For every non-null settings pointer, no exception unwinds out of
  GetInstance, and a handle that it returns is not null. What the call does is fixed by
  the first statement that throws, in the order of the text: when there is one, the
  process is terminated with its exception and no handle is returned, whether it is one
  of the called functions (\<^verbatim>\<open>MakeJSQueueThread\<close>, the constructor of the runtime holder,
  \<^verbatim>\<open>CreateReactInstance\<close>, \<^verbatim>\<open>loadBundle\<close>, the constructor of \<^verbatim>\<open>DesktopTestInstance\<close>) or
  an allocation (the initializer of the table, a round of the loop, the assignment of
  the platform name, \<^verbatim>\<open>make_unique\<close>). When no statement throws and
  \<^verbatim>\<open>CreateReactInstance\<close> returns an instance, the call returns the handle that wraps it;
  when no statement throws and \<^verbatim>\<open>CreateReactInstance\<close> returns a null pointer, line 92
  dereferences it.
\<close>

theorem C2_no_unwinding_handle_or_terminate:
  assumes "devSettings = Some a" and "heap w a = Some s"
  shows "(\<forall>e. fst (GetInstance env jsBundleFile cxxModules devSettings w) \<noteq> Unwound e)
       \<and> fst (GetInstance env jsBundleFile cxxModules devSettings w) \<noteq> Returned None
       \<and> (\<forall>e. first_thrown (thrown_in_order env jsBundleFile cxxModules a s (nextId w))
                 = Some e \<longrightarrow>
             fst (GetInstance env jsBundleFile cxxModules devSettings w) = Terminated e)
       \<and> (\<forall>inst. first_thrown (thrown_in_order env jsBundleFile cxxModules a s (nextId w))
                    = None
                \<and> CreateReactInstance_ext env (args_of env cxxModules (Some a) (nextId w))
                     (Some (settings_after a (Suc (nextId w)) s)) = Inr (Some inst) \<longrightarrow>
             fst (GetInstance env jsBundleFile cxxModules devSettings w)
               = Returned (Some (DesktopTestInstance (Some inst))))
       \<and> (first_thrown (thrown_in_order env jsBundleFile cxxModules a s (nextId w)) = None
            \<and> CreateReactInstance_ext env (args_of env cxxModules (Some a) (nextId w))
                 (Some (settings_after a (Suc (nextId w)) s)) = Inr None \<longrightarrow>
             fst (GetInstance env jsBundleFile cxxModules devSettings w) = Undefined)
       \<and> (\<forall>e. MakeJSQueueThread_throws env (nextId w) = Some e \<longrightarrow>
             fst (GetInstance env jsBundleFile cxxModules devSettings w) = Terminated e)
       \<and> (\<forall>h. fst (GetInstance env jsBundleFile cxxModules devSettings w) = Returned h \<longrightarrow>
             first_thrown (thrown_in_order env jsBundleFile cxxModules a s (nextId w)) = None)"
proof -
  let ?out = "fst (GetInstance env jsBundleFile cxxModules devSettings w)"
  let ?thrown = "first_thrown (thrown_in_order env jsBundleFile cxxModules a s (nextId w))"
  have emp: "first_thrown (map (\<lambda>k. emplace_back_throws env
                  (initial_extraModules env (nextId w) @ extras_of (take k cxxModules) (nextId w))
                  (cxxModules ! k)) [0 ..< length cxxModules])
        = map_option snd
            (emplace_stop env (nextId w) (initial_extraModules env (nextId w)) cxxModules)"
    by (rule first_thrown_emplace)
  have nonnull: "?out \<noteq> Returned None"
    using assms unfolding GetInstance_unfold
    by (simp split: option.splits sum.splits prod.splits)
  have stops: "?out = Terminated e" if "?thrown = Some e" for e
    using that assms unfolding GetInstance_unfold thrown_in_order_def
    by (auto simp: first_thrown_Cons first_thrown_append emp args_of_def settings_after_def
        split: option.splits sum.splits prod.splits)
  have ret: "?out = Returned (Some (DesktopTestInstance (Some inst)))"
    if "?thrown = None"
      and "CreateReactInstance_ext env (args_of env cxxModules (Some a) (nextId w))
             (Some (settings_after a (Suc (nextId w)) s)) = Inr (Some inst)" for inst
    using that assms unfolding GetInstance_unfold thrown_in_order_def
    by (auto simp: first_thrown_Cons first_thrown_append emp args_of_def settings_after_def
        split: option.splits sum.splits prod.splits)
  have null: "?out = Undefined"
    if "?thrown = None"
      and "CreateReactInstance_ext env (args_of env cxxModules (Some a) (nextId w))
             (Some (settings_after a (Suc (nextId w)) s)) = Inr None"
    using that assms unfolding GetInstance_unfold thrown_in_order_def
    by (auto simp: first_thrown_Cons first_thrown_append emp args_of_def settings_after_def
        split: option.splits sum.splits prod.splits)
  have first: "?out = Terminated e" if "MakeJSQueueThread_throws env (nextId w) = Some e" for e
    using stops [of e] that by (simp add: thrown_in_order_def first_thrown_Cons)
  have conv: "?thrown = None" if "?out = Returned h" for h
  proof (cases ?thrown)
    case None
    then show ?thesis .
  next
    case (Some e)
    from stops [OF this] that show ?thesis
      by simp
  qed
  from GetInstance_not_Unwound nonnull stops ret null first conv show ?thesis
    by blast
qed

theorem C2_no_unwinding_handle_or_terminate_witness:
  "Some (0::nat) = Some 0 \<and> heap example_world 0 = Some example_settings
   \<and> first_thrown (thrown_in_order example_env ''main.bundle'' [(''Custom'', 1)] 0
        example_settings (nextId example_world)) = None
   \<and> CreateReactInstance_ext example_env
        (args_of example_env [(''Custom'', 1)] (Some 0) (nextId example_world))
        (Some (settings_after 0 (Suc (nextId example_world)) example_settings))
       = Inr (Some 7)
   \<and> fst (GetInstance example_env ''main.bundle'' [(''Custom'', 1)] (Some 0) example_world)
       = Returned (Some (DesktopTestInstance (Some 7)))
   \<and> first_thrown (thrown_in_order holder_failing_env ''main.bundle'' [(''Custom'', 1)] 0
        example_settings (nextId example_world)) = Some (Exception ''holder'')
   \<and> fst (GetInstance holder_failing_env ''main.bundle'' [(''Custom'', 1)] (Some 0)
            example_world)
       = Terminated (Exception ''holder'')"
proof -
  have p: "Some (0::nat) = Some 0"
    by simp
  have h: "heap example_world 0 = Some example_settings"
    by (simp add: example_world_def)
  have none: "first_thrown (thrown_in_order example_env ''main.bundle'' [(''Custom'', 1)] 0
        example_settings (nextId example_world)) = None"
    by (simp add: thrown_in_order_def example_env_def)
  have cr: "CreateReactInstance_ext example_env
        (args_of example_env [(''Custom'', 1)] (Some 0) (nextId example_world))
        (Some (settings_after 0 (Suc (nextId example_world)) example_settings))
       = Inr (Some 7)"
    by (simp add: example_env_def)
  have thrown: "first_thrown (thrown_in_order holder_failing_env ''main.bundle''
        [(''Custom'', 1)] 0 example_settings (nextId example_world))
       = Some (Exception ''holder'')"
    by (simp add: thrown_in_order_def example_env_def holder_failing_env_def)
  from C2_no_unwinding_handle_or_terminate [OF p h, of example_env "''main.bundle''"
      "[(''Custom'', 1)]"] none cr
  have r: "fst (GetInstance example_env ''main.bundle'' [(''Custom'', 1)] (Some 0)
             example_world)
       = Returned (Some (DesktopTestInstance (Some 7)))"
    by blast
  from C2_no_unwinding_handle_or_terminate [OF p h, of holder_failing_env "''main.bundle''"
      "[(''Custom'', 1)]"] thrown
  have t: "fst (GetInstance holder_failing_env ''main.bundle'' [(''Custom'', 1)] (Some 0)
            example_world)
       = Terminated (Exception ''holder'')"
    by blast
  from p h none cr r thrown t show ?thesis
    by blast
qed

subsection \<open>The order of the statements\<close>

text \<open>
  C4, as stated: the platform identifier is injected into the settings before the
  module table is built. In a run that returns it is not: the table is started (and,
  being without extras here, finished) first, and \<^verbatim>\<open>platformName\<close> is written afterwards.
\<close>

theorem C4_platform_before_table_counterexample:
  "fst (GetInstance example_env ''main.bundle'' [] (Some 0) example_world)
     = Returned (Some (DesktopTestInstance (Some 7)))
   \<and> \<not> precedes InjectPlatform InitTable
        (map step_of (new_events example_world
           (snd (GetInstance example_env ''main.bundle'' [] (Some 0) example_world))))
   \<and> precedes InitTable InjectPlatform
        (map step_of (new_events example_world
           (snd (GetInstance example_env ''main.bundle'' [] (Some 0) example_world))))"
proof -
  have "map step_of (new_events example_world
           (snd (GetInstance example_env ''main.bundle'' [] (Some 0) example_world)))
        = steps_in_order 0"
    using GetInstance_Returned_steps [OF example_returns [of "[]"]] by simp
  then show ?thesis
    using example_returns [of "[]"]
    by (simp add: steps_in_order_def precedes_Cons precedes_Nil)
qed

text \<open>
  C4, amended. The statements run in the order of the text of the function: the two
  queues are allocated; the runtime holder is constructed; the holder is stored into the
  settings; the module table is built (the seven built-ins, then one entry for each extra
  module); the platform identifier is stored into the settings; the callback is made;
  the instance is constructed; \<^verbatim>\<open>loadBundle\<close> is called; the handle is returned. Every
  call performs an initial part of this sequence, and a call that returns performs all
  of it.
\<close>

theorem C4_statement_order:
  "prefix (map step_of (new_events w
             (snd (GetInstance env jsBundleFile cxxModules devSettings w))))
          (steps_in_order (length cxxModules))
   \<and> (\<forall>h. fst (GetInstance env jsBundleFile cxxModules devSettings w) = Returned h \<longrightarrow>
          map step_of (new_events w
             (snd (GetInstance env jsBundleFile cxxModules devSettings w)))
            = steps_in_order (length cxxModules))
   \<and> precedes AllocQueue ConstructHolder (steps_in_order (length cxxModules))
   \<and> precedes AllocQueue InitTable (steps_in_order (length cxxModules))
   \<and> precedes ConstructHolder InjectHolder (steps_in_order (length cxxModules))
   \<and> precedes InjectHolder InitTable (steps_in_order (length cxxModules))
   \<and> precedes InitTable InjectPlatform (steps_in_order (length cxxModules))
   \<and> precedes InjectPlatform ConstructInstance (steps_in_order (length cxxModules))
   \<and> precedes ConstructInstance LoadBundle (steps_in_order (length cxxModules))
   \<and> precedes LoadBundle ReturnHandle (steps_in_order (length cxxModules))"
  using GetInstance_steps_prefix GetInstance_Returned_steps steps_precedes
  by blast

theorem C4_statement_order_witness:
  "fst (GetInstance example_env ''main.bundle'' [(''Custom'', 1)] (Some 0) example_world)
     = Returned (Some (DesktopTestInstance (Some 7)))
   \<and> map step_of (new_events example_world
        (snd (GetInstance example_env ''main.bundle'' [(''Custom'', 1)] (Some 0)
               example_world)))
     = [AllocQueue, AllocQueue, ConstructHolder, InjectHolder, InitTable, AppendExtra,
        InjectPlatform, NewCallback, ConstructInstance, LoadBundle, ReturnHandle]"
  using C4_statement_order [of example_world example_env "''main.bundle''"
      "[(''Custom'', 1)]" "Some 0"] example_returns [of "[(''Custom'', 1)]"]
  by (simp add: steps_in_order_def)

subsection \<open>The settings object\<close>

text \<open>
  C5. GetInstance changes nothing in the store but the settings object it was given,
  and in that object nothing but \<^verbatim>\<open>jsiRuntimeHolder\<close>, which becomes the new holder, and
  \<^verbatim>\<open>platformName\<close>, which becomes \<^verbatim>\<open>"windesktop"\<close>. When the settings are handed to
  \<^verbatim>\<open>CreateReactInstance\<close> they are the caller's settings with exactly these two fields
  written, and they are the same when the call ends: no statement after that writes
  to them.
\<close>

theorem C5_settings_frame:
  assumes "devSettings = Some a" and "heap w a = Some s"
  shows "(\<forall>a'. a' \<noteq> a \<longrightarrow>
            heap (snd (GetInstance env jsBundleFile cxxModules devSettings w)) a' = heap w a')
       \<and> (\<exists>s'. heap (snd (GetInstance env jsBundleFile cxxModules devSettings w)) a = Some s'
             \<and> otherFields s' = otherFields s
             \<and> (jsiRuntimeHolder s' = jsiRuntimeHolder s
                 \<or> jsiRuntimeHolder s'
                     = Some (ChakraRuntimeHolder devSettings (Suc (nextId w)) None None))
             \<and> (platformName s' = platformName s \<or> platformName s' = ''windesktop''))
       \<and> (\<forall>args st. EvCreateReactInstance args st
               \<in> set (new_events w
                    (snd (GetInstance env jsBundleFile cxxModules devSettings w))) \<longrightarrow>
             st = Some (s\<lparr>jsiRuntimeHolder :=
                            Some (ChakraRuntimeHolder devSettings (arg_jsQueue args) None None),
                         platformName := ''windesktop''\<rparr>)
             \<and> heap (snd (GetInstance env jsBundleFile cxxModules devSettings w)) a = st)"
proof -
  have "st = Some (s\<lparr>jsiRuntimeHolder :=
                            Some (ChakraRuntimeHolder devSettings (arg_jsQueue args) None None),
                         platformName := ''windesktop''\<rparr>)
        \<and> heap (snd (GetInstance env jsBundleFile cxxModules devSettings w)) a = st"
    if "EvCreateReactInstance args st
               \<in> set (new_events w
                    (snd (GetInstance env jsBundleFile cxxModules devSettings w)))"
    for args st
    using CreateReactInstance_event [OF that] assms
    by (auto simp: args_of_def settings_after_def)
  with GetInstance_frame [OF assms] show ?thesis
    by blast
qed

theorem C5_settings_frame_witness:
  "Some (0::nat) = Some 0 \<and> heap example_world 0 = Some example_settings
   \<and> heap (snd (GetInstance example_env ''main.bundle'' [(''Custom'', 1)] (Some 0)
                  example_world)) 0
       = Some \<lparr>jsiRuntimeHolder = Some (ChakraRuntimeHolder (Some 0) 1 None None),
               platformName = ''windesktop'', otherFields = 42\<rparr>
   \<and> EvCreateReactInstance (args_of example_env [(''Custom'', 1)] (Some 0) 0)
         (Some \<lparr>jsiRuntimeHolder = Some (ChakraRuntimeHolder (Some 0) 1 None None),
                platformName = ''windesktop'', otherFields = 42\<rparr>)
       \<in> set (new_events example_world
            (snd (GetInstance example_env ''main.bundle'' [(''Custom'', 1)] (Some 0)
                   example_world)))"
proof -
  have p: "Some (0::nat) = Some 0"
    by simp
  have h: "heap example_world 0 = Some example_settings"
    by (simp add: example_world_def)
  have ev: "EvCreateReactInstance (args_of example_env [(''Custom'', 1)] (Some 0) 0)
         (Some \<lparr>jsiRuntimeHolder = Some (ChakraRuntimeHolder (Some 0) 1 None None),
                platformName = ''windesktop'', otherFields = 42\<rparr>)
       \<in> set (new_events example_world
            (snd (GetInstance example_env ''main.bundle'' [(''Custom'', 1)] (Some 0)
                   example_world)))"
    unfolding GetInstance_unfold
    by (simp add: example_defs args_of_def)
  from C5_settings_frame [OF p h, of example_env "''main.bundle''" "[(''Custom'', 1)]"] ev h
  show ?thesis
    by (auto simp: example_settings_def)
qed

subsection \<open>Names that occur twice\<close>

lemma find_append_first:
  "find P (xs @ ys) = (case find P xs of None \<Rightarrow> find P ys | Some x \<Rightarrow> Some x)"
  by (induction xs) simp_all

lemma fold_index:
  "fold (\<lambda>d m. m(get0 d \<mapsto> d)) ds m n =
     (case find (\<lambda>d. get0 d = n) (rev ds) of Some d \<Rightarrow> Some d | None \<Rightarrow> m n)"
  by (induction ds arbitrary: m) (auto simp: find_append_first split: option.splits)

lemma index_by_name_last:
  "index_by_name table n = find (\<lambda>d. get0 d = n) (rev table)"
  by (simp add: index_by_name_def fold_index split: option.splits)

lemma find_extras_of:
  "find (\<lambda>d. get0 d = n) (map (\<lambda>t. (fst t, CallerProvider (snd t), q)) xs)
     = map_option (\<lambda>t. (fst t, CallerProvider (snd t), q)) (find (\<lambda>t. fst t = n) xs)"
  by (induction xs) (simp_all add: get0_def)

lemma find_rev_extras_of:
  "find (\<lambda>d. get0 d = n) (rev (extras_of ms q))
     = map_option (\<lambda>t. (fst t, CallerProvider (snd t), q)) (find (\<lambda>t. fst t = n) (rev ms))"
  unfolding extras_of_def rev_map by (rule find_extras_of)

lemma find_name: "find (\<lambda>t. fst t = n) xs = Some t \<Longrightarrow> fst t = n"
  by (induction xs) (auto split: if_splits)

text \<open>
  C6. When an extra module has the name of a built-in one, the table handed to
  \<^verbatim>\<open>CreateReactInstance\<close> is still the seven built-ins followed by all the extras: nothing
  is rejected or removed, and the built-in entry of that name is still among the first
  seven. The last entry of the table with that name is the last extra with that name,
  and a consumer that keeps the last write for a name finds that entry.
\<close>

theorem C6_name_collision_last_wins:
  assumes "EvCreateReactInstance args st
             \<in> set (new_events w (snd (GetInstance env jsBundleFile cxxModules devSettings w)))"
    and "name \<in> set (map get0 (initial_extraModules env (arg_nativeQueue args)))"
    and "find (\<lambda>t. fst t = name) (rev cxxModules) = Some t"
  shows "arg_modules args
           = initial_extraModules env (arg_nativeQueue args)
             @ map (\<lambda>t. (fst t, CallerProvider (snd t), arg_nativeQueue args)) cxxModules
       \<and> length (arg_modules args) = 7 + length cxxModules
       \<and> name \<in> set (map get0 (take 7 (arg_modules args)))
       \<and> find (\<lambda>d. get0 d = name) (rev (arg_modules args))
           = Some (name, CallerProvider (snd t), arg_nativeQueue args)
       \<and> index_by_name (arg_modules args) name
           = Some (name, CallerProvider (snd t), arg_nativeQueue args)"
proof -
  from CreateReactInstance_event [OF assms(1)]
  have args: "args = args_of env cxxModules devSettings (nextId w)"
    by blast
  have tbl: "arg_modules args
               = initial_extraModules env (nextId w) @ extras_of cxxModules (nextId w)"
    and nq: "arg_nativeQueue args = nextId w"
    by (simp_all add: args args_of_def)
  have last: "find (\<lambda>d. get0 d = name) (rev (arg_modules args))
           = Some (name, CallerProvider (snd t), nextId w)"
    using assms(3) find_name [OF assms(3)]
    by (simp add: tbl find_append_first find_rev_extras_of)
  show ?thesis
    using assms(2) last
    by (simp add: index_by_name_last nq)
       (simp add: tbl extras_of_def length_initial_extraModules)
qed

theorem C6_name_collision_last_wins_witness:
  "EvCreateReactInstance (args_of example_env [(''Timing'', 1)] (Some 0) 0)
         (Some (settings_after 0 1 example_settings))
       \<in> set (new_events example_world
            (snd (GetInstance example_env ''main.bundle'' [(''Timing'', 1)] (Some 0)
                   example_world)))
   \<and> ''Timing'' \<in> set (map get0 (initial_extraModules example_env
         (arg_nativeQueue (args_of example_env [(''Timing'', 1)] (Some 0) 0))))
   \<and> find (\<lambda>t. fst t = ''Timing'') (rev [(''Timing'', 1::nat)]) = Some (''Timing'', 1)
   \<and> length (arg_modules (args_of example_env [(''Timing'', 1)] (Some 0) 0)) = 8
   \<and> index_by_name (arg_modules (args_of example_env [(''Timing'', 1)] (Some 0) 0)) ''Timing''
       = Some (''Timing'', CallerProvider 1, 0)"
proof -
  have ev: "EvCreateReactInstance (args_of example_env [(''Timing'', 1)] (Some 0) 0)
         (Some (settings_after 0 1 example_settings))
       \<in> set (new_events example_world
            (snd (GetInstance example_env ''main.bundle'' [(''Timing'', 1)] (Some 0)
                   example_world)))"
    unfolding GetInstance_unfold
    by (simp add: example_defs args_of_def settings_after_def)
  have nm: "''Timing'' \<in> set (map get0 (initial_extraModules example_env
         (arg_nativeQueue (args_of example_env [(''Timing'', 1)] (Some 0) 0))))"
    by (simp add: initial_extraModules_def get0_def)
  have fd: "find (\<lambda>t. fst t = ''Timing'') (rev [(''Timing'', 1::nat)]) = Some (''Timing'', 1)"
    by simp
  from C6_name_collision_last_wins [OF ev nm fd] ev nm fd show ?thesis
    by (simp add: args_of_def extras_of_def length_initial_extraModules)
qed

subsection \<open>The bundle load\<close>

lemma initial_extraModules_loadBundle_ext:
  "initial_extraModules (env\<lparr>loadBundle_ext := lb\<rparr>) q = initial_extraModules env q"
  by (simp add: initial_extraModules_def)

lemma args_of_loadBundle_ext:
  "args_of (env\<lparr>loadBundle_ext := lb\<rparr>) ms d n = args_of env ms d n"
  by (simp add: args_of_def initial_extraModules_def)

lemma emplace_stop_loadBundle_ext:
  "emplace_stop (env\<lparr>loadBundle_ext := lb\<rparr>) q xs ts = emplace_stop env q xs ts"
  by (induction ts arbitrary: xs) (simp_all split: option.splits)

text \<open>
  C7. In a call that returns, \<^verbatim>\<open>loadBundle\<close> is called once, on the instance that
  \<^verbatim>\<open>CreateReactInstance\<close> returned and with the bundle name the caller gave, right after
  the instance is constructed and right before the handle is returned. The handle is the
  wrapped instance: it is the same whatever \<^verbatim>\<open>loadBundle\<close> does and whatever bundle name
  is given, and with any \<^verbatim>\<open>loadBundle\<close> that comes back, whatever becomes of the load, the
  call returns that handle.
\<close>

theorem C7_loadBundle_once_result_independent:
  assumes "GetInstance env jsBundleFile cxxModules devSettings w = (Returned h, w')"
  shows "(\<exists>pre args st inst.
            new_events w w'
              = pre @ [EvCreateReactInstance args st, EvLoadBundle inst jsBundleFile, EvReturn h]
            \<and> LoadBundle \<notin> set (map step_of pre)
            \<and> CreateReactInstance_ext env args st = Inr (Some inst)
            \<and> h = Some (DesktopTestInstance (Some inst)))
       \<and> length (filter (\<lambda>e. step_of e = LoadBundle) (new_events w w')) = 1
       \<and> (\<forall>lb b' h2 w2.
             GetInstance (env\<lparr>loadBundle_ext := lb\<rparr>) b' cxxModules devSettings w
               = (Returned h2, w2) \<longrightarrow> h2 = h)
       \<and> (\<forall>lb b'. (\<forall>inst. \<exists>fate. lb inst b' = Inr fate) \<longrightarrow>
             fst (GetInstance (env\<lparr>loadBundle_ext := lb\<rparr>) b' cxxModules devSettings w)
               = Returned h)"
proof -
  from GetInstance_Returned [OF assms]
  obtain a s inst where d: "devSettings = Some a" and hp: "heap w a = Some s"
    and cr: "CreateReactInstance_ext env (args_of env cxxModules devSettings (nextId w))
                (Some (settings_after a (Suc (nextId w)) s)) = Inr (Some inst)"
    and h: "h = Some (DesktopTestInstance (Some inst))"
    and tr: "trace w' = trace w @ events_of env jsBundleFile cxxModules a s (nextId w) inst"
    by (metis world.select_convs(3))
  let ?pre = "[EvMakeJSQueueThread, EvMakeJSQueueThread,
      EvChakraRuntimeHolder (ChakraRuntimeHolder (Some a) (Suc (nextId w)) None None),
      EvSetRuntimeHolder (Some a) (ChakraRuntimeHolder (Some a) (Suc (nextId w)) None None),
      EvInitModules (initial_extraModules env (nextId w))]
     @ map EvEmplaceBack (extras_of cxxModules (nextId w))
     @ [EvSetPlatformName (Some a) ''windesktop'',
        EvNewCallback (TestInstanceCallback (nextId w + 2))]"
  have ev: "new_events w w'
              = ?pre @ [EvCreateReactInstance (args_of env cxxModules devSettings (nextId w))
                          (Some (settings_after a (Suc (nextId w)) s)),
                        EvLoadBundle inst jsBundleFile, EvReturn h]"
    by (simp add: new_events_def tr events_of_def h d)
  have pre: "LoadBundle \<notin> set (map step_of ?pre)"
    by (auto simp: map_step_emplace)
  have once: "length (filter (\<lambda>e. step_of e = LoadBundle) (new_events w w')) = 1"
    by (simp add: ev filter_map o_def)
  have indep: "h2 = h"
    if "GetInstance (env\<lparr>loadBundle_ext := lb\<rparr>) b' cxxModules devSettings w
               = (Returned h2, w2)" for lb b' h2 w2
    using GetInstance_Returned [OF that] d hp cr h
    by (auto simp: args_of_loadBundle_ext)
  have same: "fst (GetInstance (env\<lparr>loadBundle_ext := lb\<rparr>) b' cxxModules devSettings w)
               = Returned h"
    if "\<forall>inst. \<exists>fate. lb inst b' = Inr fate" for lb b'
  proof -
    from that obtain fate where "lb inst b' = Inr fate"
      by blast
    with assms d hp cr h show ?thesis
      unfolding GetInstance_unfold
      by (auto simp: args_of_def settings_after_def initial_extraModules_loadBundle_ext
          emplace_stop_loadBundle_ext split: option.splits sum.splits prod.splits)
  qed
  from ev pre cr h once indep same show ?thesis
    by blast
qed

theorem C7_loadBundle_once_result_independent_witness:
  "GetInstance example_env ''main.bundle'' [] (Some 0) example_world
     = (Returned (Some (DesktopTestInstance (Some 7))),
        snd (GetInstance example_env ''main.bundle'' [] (Some 0) example_world))
   \<and> length (filter (\<lambda>e. step_of e = LoadBundle)
        (new_events example_world
           (snd (GetInstance example_env ''main.bundle'' [] (Some 0) example_world)))) = 1
   \<and> fst (GetInstance (example_env\<lparr>loadBundle_ext := \<lambda>inst b. Inr LoadFails\<rparr>)
            ''missing.bundle'' [] (Some 0) example_world)
       = Returned (Some (DesktopTestInstance (Some 7)))"
proof -
  have run: "GetInstance example_env ''main.bundle'' [] (Some 0) example_world
     = (Returned (Some (DesktopTestInstance (Some 7))),
        snd (GetInstance example_env ''main.bundle'' [] (Some 0) example_world))"
    using example_returns [of "[]"] by (simp add: prod_eq_iff)
  note c7 = C7_loadBundle_once_result_independent [OF run]
  from c7 have once: "length (filter (\<lambda>e. step_of e = LoadBundle)
        (new_events example_world
           (snd (GetInstance example_env ''main.bundle'' [] (Some 0) example_world)))) = 1"
    by blast
  from c7 have "\<forall>lb b'. (\<forall>inst. \<exists>fate. lb inst b' = Inr fate) \<longrightarrow>
             fst (GetInstance (example_env\<lparr>loadBundle_ext := lb\<rparr>) b' [] (Some 0) example_world)
               = Returned (Some (DesktopTestInstance (Some 7)))"
    by blast
  from this [rule_format, of "\<lambda>inst b. Inr LoadFails" "''missing.bundle''"]
  have "fst (GetInstance (example_env\<lparr>loadBundle_ext := \<lambda>inst b. Inr LoadFails\<rparr>)
            ''missing.bundle'' [] (Some 0) example_world)
       = Returned (Some (DesktopTestInstance (Some 7)))"
    by simp
  with run once show ?thesis
    by blast
qed

subsection \<open>Queues, holder and callback\<close>

lemma two_queues:
  assumes "EvCreateReactInstance args st
             \<in> set (new_events w (snd (GetInstance env b ms d w)))"
  shows "\<exists>w1 w2. MakeJSQueueThread env w = (Ok (arg_nativeQueue args), w1)
           \<and> MakeJSQueueThread env w1 = (Ok (arg_jsQueue args), w2)"
  using assms unfolding GetInstance_unfold
  by (auto split: option.splits sum.splits prod.splits)

lemma holder_events:
  assumes "EvCreateReactInstance args st
             \<in> set (new_events w (snd (GetInstance env b ms d w)))"
  shows "EvChakraRuntimeHolder (ChakraRuntimeHolder d (arg_jsQueue args) None None)
           \<in> set (new_events w (snd (GetInstance env b ms d w)))
       \<and> EvSetRuntimeHolder d (ChakraRuntimeHolder d (arg_jsQueue args) None None)
           \<in> set (new_events w (snd (GetInstance env b ms d w)))
       \<and> EvNewCallback (arg_callback args)
           \<in> set (new_events w (snd (GetInstance env b ms d w)))
       \<and> nextId w + 3 = nextId (snd (GetInstance env b ms d w))"
  using assms unfolding GetInstance_unfold
  by (auto split: option.splits sum.splits prod.splits)

lemma steps_before_instance:
  assumes "EvCreateReactInstance args st
             \<in> set (new_events w (snd (GetInstance env b ms d w)))"
  shows "precedes ConstructHolder ConstructInstance
           (map step_of (new_events w (snd (GetInstance env b ms d w))))
       \<and> precedes InjectHolder ConstructInstance
           (map step_of (new_events w (snd (GetInstance env b ms d w))))
       \<and> precedes NewCallback ConstructInstance
           (map step_of (new_events w (snd (GetInstance env b ms d w))))"
  using assms unfolding GetInstance_unfold
  by (auto simp: map_step_emplace precedes_append precedes_Cons precedes_Nil
      split: option.splits sum.splits prod.splits)

lemma example_event:
  "EvCreateReactInstance (args_of example_env ms (Some 0) 0)
         (Some (settings_after 0 1 example_settings))
       \<in> set (new_events example_world
            (snd (GetInstance example_env ''main.bundle'' ms (Some 0) example_world)))"
  unfolding GetInstance_unfold
  by (simp add: example_defs args_of_def settings_after_def)

lemma Returned_reaches_instance:
  assumes "fst (GetInstance env b ms d w) = Returned h"
  shows "\<exists>args st. EvCreateReactInstance args st
           \<in> set (new_events w (snd (GetInstance env b ms d w)))"
proof -
  from assms have "GetInstance env b ms d w = (Returned h, snd (GetInstance env b ms d w))"
    by (simp add: prod_eq_iff)
  from GetInstance_Returned [OF this]
  obtain a s inst where
    "trace (snd (GetInstance env b ms d w)) = trace w @ events_of env b ms a s (nextId w) inst"
    by (metis world.select_convs(3))
  then show ?thesis
    by (auto simp: new_events_def events_of_def)
qed

text \<open>
  C8. The runtime holder is constructed with \<^verbatim>\<open>jsQueue\<close>, the queue of the second call
  of \<^verbatim>\<open>MakeJSQueueThread\<close>, which is not the native queue; it is constructed and stored
  into the settings before \<^verbatim>\<open>CreateReactInstance\<close> is called, and the settings handed to
  that call hold it.
\<close>

theorem C8_holder_on_script_queue:
  assumes "EvCreateReactInstance args st
             \<in> set (new_events w (snd (GetInstance env jsBundleFile cxxModules devSettings w)))"
  shows "(\<exists>w1 w2. MakeJSQueueThread env w = (Ok (arg_nativeQueue args), w1)
            \<and> MakeJSQueueThread env w1 = (Ok (arg_jsQueue args), w2))
       \<and> (\<exists>s' hd. st = Some s' \<and> jsiRuntimeHolder s' = Some hd
            \<and> hd = ChakraRuntimeHolder devSettings (arg_jsQueue args) None None
            \<and> holder_queue hd = arg_jsQueue args
            \<and> holder_queue hd \<noteq> arg_nativeQueue args
            \<and> EvChakraRuntimeHolder hd
                \<in> set (new_events w
                     (snd (GetInstance env jsBundleFile cxxModules devSettings w)))
            \<and> EvSetRuntimeHolder devSettings hd
                \<in> set (new_events w
                     (snd (GetInstance env jsBundleFile cxxModules devSettings w))))
       \<and> precedes ConstructHolder ConstructInstance
           (map step_of (new_events w
              (snd (GetInstance env jsBundleFile cxxModules devSettings w))))
       \<and> precedes InjectHolder ConstructInstance
           (map step_of (new_events w
              (snd (GetInstance env jsBundleFile cxxModules devSettings w))))"
proof -
  from CreateReactInstance_event [OF assms]
  obtain a s where d: "devSettings = Some a"
    and args: "args = args_of env cxxModules devSettings (nextId w)"
    and st: "st = Some (settings_after a (Suc (nextId w)) s)"
    by blast
  have "\<exists>s' hd. st = Some s' \<and> jsiRuntimeHolder s' = Some hd
            \<and> hd = ChakraRuntimeHolder devSettings (arg_jsQueue args) None None
            \<and> holder_queue hd = arg_jsQueue args
            \<and> holder_queue hd \<noteq> arg_nativeQueue args"
    by (simp add: st args d args_of_def settings_after_def)
  with two_queues [OF assms] holder_events [OF assms] steps_before_instance [OF assms]
  show ?thesis
    by blast
qed

theorem C8_holder_on_script_queue_witness:
  "EvCreateReactInstance (args_of example_env [] (Some 0) 0)
         (Some (settings_after 0 1 example_settings))
       \<in> set (new_events example_world
            (snd (GetInstance example_env ''main.bundle'' [] (Some 0) example_world)))
   \<and> arg_nativeQueue (args_of example_env [] (Some 0) 0) = 0
   \<and> arg_jsQueue (args_of example_env [] (Some 0) 0) = 1
   \<and> jsiRuntimeHolder (settings_after 0 1 example_settings)
       = Some (ChakraRuntimeHolder (Some 0) 1 None None)
   \<and> precedes InjectHolder ConstructInstance
        (map step_of (new_events example_world
           (snd (GetInstance example_env ''main.bundle'' [] (Some 0) example_world))))"
  using C8_holder_on_script_queue [OF example_event [of "[]"]] example_event [of "[]"]
  by (simp add: args_of_def settings_after_def)

text \<open>
  C9. Every call that returns has called \<^verbatim>\<open>CreateReactInstance\<close>, and the callback handed
  to \<^verbatim>\<open>CreateReactInstance\<close> is an object made in this call, before the instance is
  constructed: its identity was not in use when the call began, and a later call hands
  over another one. The three operations of the callback,
  \<^verbatim>\<open>onBatchComplete\<close>, \<^verbatim>\<open>incrementPendingJSCalls\<close> and \<^verbatim>\<open>decrementPendingJSCalls\<close>, leave the
  state (store, identities, trace) as it is.
\<close>

theorem C9_fresh_inert_callback:
  "(\<forall>h. fst (GetInstance env jsBundleFile cxxModules devSettings w) = Returned h \<longrightarrow>
      (\<exists>args st. EvCreateReactInstance args st
         \<in> set (new_events w (snd (GetInstance env jsBundleFile cxxModules devSettings w)))))
   \<and> (\<forall>args st. EvCreateReactInstance args st
        \<in> set (new_events w (snd (GetInstance env jsBundleFile cxxModules devSettings w))) \<longrightarrow>
      EvNewCallback (arg_callback args)
        \<in> set (new_events w (snd (GetInstance env jsBundleFile cxxModules devSettings w)))
      \<and> precedes NewCallback ConstructInstance
          (map step_of (new_events w
             (snd (GetInstance env jsBundleFile cxxModules devSettings w))))
      \<and> (\<exists>n. arg_callback args = TestInstanceCallback n \<and> nextId w \<le> n
            \<and> n < nextId (snd (GetInstance env jsBundleFile cxxModules devSettings w)))
      \<and> (\<forall>env2 b2 ms2 d2 args2 st2.
            EvCreateReactInstance args2 st2
              \<in> set (new_events (snd (GetInstance env jsBundleFile cxxModules devSettings w))
                   (snd (GetInstance env2 b2 ms2 d2
                      (snd (GetInstance env jsBundleFile cxxModules devSettings w))))) \<longrightarrow>
            arg_callback args2 \<noteq> arg_callback args))
   \<and> onBatchComplete cb v = v
   \<and> incrementPendingJSCalls cb v = v
   \<and> decrementPendingJSCalls cb v = v"
proof -
  let ?w' = "snd (GetInstance env jsBundleFile cxxModules devSettings w)"
  have one: "EvNewCallback (arg_callback args) \<in> set (new_events w ?w')
      \<and> precedes NewCallback ConstructInstance (map step_of (new_events w ?w'))
      \<and> (\<exists>n. arg_callback args = TestInstanceCallback n \<and> nextId w \<le> n \<and> n < nextId ?w')
      \<and> (\<forall>env2 b2 ms2 d2 args2 st2.
            EvCreateReactInstance args2 st2
              \<in> set (new_events ?w' (snd (GetInstance env2 b2 ms2 d2 ?w'))) \<longrightarrow>
            arg_callback args2 \<noteq> arg_callback args)"
    if ev: "EvCreateReactInstance args st \<in> set (new_events w ?w')" for args st
  proof -
    from CreateReactInstance_event [OF ev]
    have args: "arg_callback args = TestInstanceCallback (nextId w + 2)"
      by (auto simp: args_of_def)
    from holder_events [OF ev] have nx: "nextId ?w' = nextId w + 3"
      by simp
    have later: "arg_callback args2 \<noteq> arg_callback args"
      if ev2: "EvCreateReactInstance args2 st2
              \<in> set (new_events ?w' (snd (GetInstance env2 b2 ms2 d2 ?w')))"
      for env2 b2 ms2 d2 args2 st2
      using CreateReactInstance_event [OF ev2] args nx
      by (auto simp: args_of_def)
    from holder_events [OF ev] steps_before_instance [OF ev] args nx later
    show ?thesis
      by auto
  qed
  with Returned_reaches_instance [of env jsBundleFile cxxModules devSettings w] show ?thesis
    by (simp add: onBatchComplete_def incrementPendingJSCalls_def decrementPendingJSCalls_def)
qed

theorem C9_fresh_inert_callback_witness:
  "EvCreateReactInstance (args_of example_env [] (Some 0) 0)
         (Some (settings_after 0 1 example_settings))
       \<in> set (new_events example_world
            (snd (GetInstance example_env ''main.bundle'' [] (Some 0) example_world)))
   \<and> arg_callback (args_of example_env [] (Some 0) 0) = TestInstanceCallback 2
   \<and> EvNewCallback (TestInstanceCallback 2)
       \<in> set (new_events example_world
            (snd (GetInstance example_env ''main.bundle'' [] (Some 0) example_world)))
   \<and> onBatchComplete (TestInstanceCallback 2) example_world = example_world"
proof -
  note c9 = C9_fresh_inert_callback [where w = example_world and env = example_env
      and jsBundleFile = "''main.bundle''" and cxxModules = "[]" and devSettings = "Some 0"
      and cb = "TestInstanceCallback 2" and v = example_world]
  have cb: "arg_callback (args_of example_env [] (Some 0) 0) = TestInstanceCallback 2"
    by (simp add: args_of_def)
  from c9 example_event [of "[]"]
  have "EvNewCallback (arg_callback (args_of example_env [] (Some 0) 0))
       \<in> set (new_events example_world
            (snd (GetInstance example_env ''main.bundle'' [] (Some 0) example_world)))"
    by blast
  with c9 cb example_event [of "[]"] show ?thesis
    by simp
qed

text \<open>
  C10. The native queue and the script queue come from two calls of
  \<^verbatim>\<open>MakeJSQueueThread\<close> and are different queues. Every descriptor of the table, built-in
  or extra, has the native queue and none has the script queue; the provider of the
  timing module captured the native queue as well. The runtime holder has the script
  queue.
\<close>

theorem C10_queues_distinct_modules_native:
  assumes "EvCreateReactInstance args st
             \<in> set (new_events w (snd (GetInstance env jsBundleFile cxxModules devSettings w)))"
  shows "arg_nativeQueue args \<noteq> arg_jsQueue args
       \<and> (\<exists>w1 w2. MakeJSQueueThread env w = (Ok (arg_nativeQueue args), w1)
            \<and> MakeJSQueueThread env w1 = (Ok (arg_jsQueue args), w2))
       \<and> (\<forall>d \<in> set (arg_modules args).
            get2 d = arg_nativeQueue args \<and> get2 d \<noteq> arg_jsQueue args)
       \<and> (\<forall>q. TimingProvider q \<in> set (map get1 (arg_modules args)) \<longrightarrow>
            q = arg_nativeQueue args)
       \<and> (\<exists>s' hd. st = Some s' \<and> jsiRuntimeHolder s' = Some hd
            \<and> holder_queue hd = arg_jsQueue args)"
proof -
  from CreateReactInstance_event [OF assms]
  obtain a s where d: "devSettings = Some a"
    and args: "args = args_of env cxxModules devSettings (nextId w)"
    and st: "st = Some (settings_after a (Suc (nextId w)) s)"
    by blast
  have q: "\<forall>d \<in> set (arg_modules args).
            get2 d = arg_nativeQueue args \<and> get2 d \<noteq> arg_jsQueue args"
    by (auto simp: args args_of_def initial_extraModules_def extras_of_def get2_def)
  have t: "\<forall>q. TimingProvider q \<in> set (map get1 (arg_modules args)) \<longrightarrow>
            q = arg_nativeQueue args"
    by (auto simp: args args_of_def initial_extraModules_def extras_of_def get1_def)
  have h: "\<exists>s' hd. st = Some s' \<and> jsiRuntimeHolder s' = Some hd
            \<and> holder_queue hd = arg_jsQueue args"
    by (simp add: st args args_of_def settings_after_def)
  have ne: "arg_nativeQueue args \<noteq> arg_jsQueue args"
    by (simp add: args args_of_def)
  from ne two_queues [OF assms] q t h show ?thesis
    by blast
qed

theorem C10_queues_distinct_modules_native_witness:
  "EvCreateReactInstance (args_of example_env [(''Custom'', 1)] (Some 0) 0)
         (Some (settings_after 0 1 example_settings))
       \<in> set (new_events example_world
            (snd (GetInstance example_env ''main.bundle'' [(''Custom'', 1)] (Some 0)
                   example_world)))
   \<and> arg_nativeQueue (args_of example_env [(''Custom'', 1)] (Some 0) 0)
       \<noteq> arg_jsQueue (args_of example_env [(''Custom'', 1)] (Some 0) 0)
   \<and> map get2 (arg_modules (args_of example_env [(''Custom'', 1)] (Some 0) 0))
       = [0, 0, 0, 0, 0, 0, 0, 0]"
  using C10_queues_distinct_modules_native [OF example_event [of "[(''Custom'', 1)]"]]
    example_event [of "[(''Custom'', 1)]"]
  by (simp add: args_of_def example_defs get2_def)

end
